theory Spec2Isabelle
  imports Main "HOL-Library.AList"
begin

section \<open>Values shared by the three backend classes\<close>

text \<open>
  A JavaScript object literal is an association list in insertion order. The spread
  \<^verbatim>\<open>{...message, timestamp: t, seq: n}\<close> copies the fields of \<^verbatim>\<open>message\<close> and then
  sets \<^verbatim>\<open>timestamp\<close> and \<^verbatim>\<open>seq\<close>: a field that is already there keeps its place and
  takes the new value, a new field goes to the end. That is \<open>AList.update\<close>.
  A JavaScript \<^verbatim>\<open>Map\<close> iterates in insertion order too, so the three registries
  (\<^verbatim>\<open>cores\<close>, \<^verbatim>\<open>topics\<close>, \<^verbatim>\<open>chats\<close>) are association lists as well.
\<close>

datatype jsval = JStr string | JNum int | JObj "(string \<times> jsval) list"

type_synonym jsobj = "(string \<times> jsval) list"

text \<open>
  Every \<^verbatim>\<open>throw new Error(...)\<close> of the three classes, by its message, and the two ways
  a Hypercore block read does not produce a block: the index is not a valid block index,
  or the block is past the end of the local log (the read then waits for a peer).
  \<open>TypeError\<close> is the method call on the \<^verbatim>\<open>null\<close> swarm manager.
\<close>

datatype error =
    CorestoreNotInitialized
  | SwarmNotInitialized
  | ManagerNotInitialized
  | ChatNotFound string
  | CoreReadOnly
  | BlockIndexInvalid
  | BlockNotAvailable
  | TypeError

section \<open>CorestoreManager (backend/corestore-manager.js)\<close>

text \<open>
  \<^verbatim>\<open>store.get\<close> is called with \<^verbatim>\<open>{key}\<close> or with \<^verbatim>\<open>{name: chatId}\<close>. The option object
  decides which log is opened, so it is the identity of the core: \<open>ByName n\<close> is the log
  whose key pair the store derives from the name \<open>n\<close> (this store is its writer);
  \<open>ByKey k\<close> is the log with public key \<open>k\<close>, opened without a secret key.
\<close>

datatype core_id = ByName string | ByKey string

record core =
  ident :: core_id
  writable :: bool

definition store_get :: "core_id \<Rightarrow> core" where
  "store_get i = \<lparr>ident = i, writable = (case i of ByName n \<Rightarrow> True | ByKey k \<Rightarrow> False)\<rparr>"

text \<open>
  The manager: the \<^verbatim>\<open>ready\<close> flag, the \<^verbatim>\<open>cores\<close> registry (chatId to core handle) and
  the contents of the store, one block list per core identity. A core handle is a
  reference: its \<^verbatim>\<open>length\<close> is read from the store at the moment it is asked for.
  A block holds \<^verbatim>\<open>JSON.stringify(messageData)\<close>; it is kept as the object itself, which
  \<^verbatim>\<open>JSON.parse\<close> gives back.
\<close>

record corestore_manager =
  cs_ready :: bool
  cores :: "(string \<times> core) list"
  blocks :: "(core_id \<times> jsobj list) list"

definition core_log :: "corestore_manager \<Rightarrow> core \<Rightarrow> jsobj list" where
  "core_log st c = (case map_of (blocks st) (ident c) of None \<Rightarrow> [] | Some bs \<Rightarrow> bs)"

definition core_length :: "corestore_manager \<Rightarrow> core \<Rightarrow> nat" where
  "core_length st c = length (core_log st c)"

definition core_append :: "corestore_manager \<Rightarrow> core \<Rightarrow> jsobj \<Rightarrow> corestore_manager" where
  "core_append st c b = st\<lparr>blocks := AList.update (ident c) (core_log st c @ [b]) (blocks st)\<rparr>"

text \<open>
  \<^verbatim>\<open>core.get(i)\<close> of Hypercore: a block index is a non-negative integer and any other
  index is rejected with an error; a block below \<^verbatim>\<open>length\<close> is returned; for an index at or
  past \<^verbatim>\<open>length\<close> the read waits until a peer supplies the block, so it produces nothing
  locally. Both callers below stay under \<^verbatim>\<open>length\<close>; neither checks for a negative index.
\<close>

definition core_get :: "corestore_manager \<Rightarrow> core \<Rightarrow> int \<Rightarrow> error + jsobj" where
  "core_get st c i =
     (if i < 0 then Inl BlockIndexInvalid
      else if int (core_length st c) \<le> i then Inl BlockNotAvailable
      else Inr (core_log st c ! nat i))"

definition cs_initialize :: "corestore_manager \<Rightarrow> corestore_manager" where
  "cs_initialize st = st\<lparr>cs_ready := True\<rparr>"

text \<open>\<^verbatim>\<open>getChatCore(chatId, key = null)\<close>. The key is a Buffer or \<^verbatim>\<open>null\<close>; a Buffer is truthy.\<close>

definition getChatCore ::
  "corestore_manager \<Rightarrow> string \<Rightarrow> string option \<Rightarrow> (error + core) \<times> corestore_manager" where
  "getChatCore st chatId key =
     (if \<not> cs_ready st then (Inl CorestoreNotInitialized, st)
      else case map_of (cores st) chatId of
        Some c \<Rightarrow> (Inr c, st)
      | None \<Rightarrow>
          (let c = (case key of Some k \<Rightarrow> store_get (ByKey k) | None \<Rightarrow> store_get (ByName chatId))
           in (Inr c, st\<lparr>cores := AList.update chatId c (cores st)\<rparr>)))"

text \<open>
  \<^verbatim>\<open>appendMessage(chatId, message)\<close> has one suspension point after the core is at hand:
  \<^verbatim>\<open>await core.append(encoded)\<close>. What runs before it (the writable check, the reading of
  \<^verbatim>\<open>Date.now()\<close> and of \<^verbatim>\<open>core.length\<close>, the building of \<^verbatim>\<open>messageData\<close>) is
  \<open>appendMessage_begin\<close>; it leaves a pending append. \<open>appendMessage_commit\<close> is the
  completion of \<^verbatim>\<open>core.append\<close>: the block goes to the end of the log as it is then, and
  the call returns \<^verbatim>\<open>messageData.seq\<close>. The clock reading is an argument.
\<close>

definition messageData :: "jsobj \<Rightarrow> int \<Rightarrow> nat \<Rightarrow> jsobj" where
  "messageData message now len =
     AList.update ''seq'' (JNum (int len)) (AList.update ''timestamp'' (JNum now) message)"

record pending_append =
  p_core :: core
  p_data :: jsobj
  p_seq :: nat

definition appendMessage_begin ::
  "int \<Rightarrow> corestore_manager \<Rightarrow> string \<Rightarrow> jsobj \<Rightarrow> (error + pending_append) \<times> corestore_manager" where
  "appendMessage_begin now st chatId message =
     (case getChatCore st chatId None of
        (Inl e, st1) \<Rightarrow> (Inl e, st1)
      | (Inr c, st1) \<Rightarrow>
          if \<not> writable c then (Inl CoreReadOnly, st1)
          else (Inr \<lparr>p_core = c,
                     p_data = messageData message now (core_length st1 c),
                     p_seq = core_length st1 c\<rparr>, st1))"

definition appendMessage_commit ::
  "corestore_manager \<Rightarrow> pending_append \<Rightarrow> nat \<times> corestore_manager" where
  "appendMessage_commit st p = (p_seq p, core_append st (p_core p) (p_data p))"

text \<open>A call that nothing interleaves with: begin, then commit at once.\<close>

definition appendMessage ::
  "int \<Rightarrow> corestore_manager \<Rightarrow> string \<Rightarrow> jsobj \<Rightarrow> (error + nat) \<times> corestore_manager" where
  "appendMessage now st chatId message =
     (case appendMessage_begin now st chatId message of
        (Inl e, st1) \<Rightarrow> (Inl e, st1)
      | (Inr p, st1) \<Rightarrow> (case appendMessage_commit st1 p of (seq, st2) \<Rightarrow> (Inr seq, st2)))"

text \<open>
  Calls in flight together. \<open>Submit caller chatId message now\<close> runs a call up to its
  \<^verbatim>\<open>await core.append\<close>; \<open>Settle caller\<close> completes that caller's pending append. A trace
  is a list of such events; \<open>returned\<close> collects what each call returned or threw.
\<close>

datatype event = Submit nat string jsobj int | Settle nat

record world =
  mgr :: corestore_manager
  inflight :: "(nat \<times> pending_append) list"
  returned :: "(nat \<times> (error + nat)) list"

fun step :: "world \<Rightarrow> event \<Rightarrow> world" where
  "step w (Submit caller chatId message now) =
     (case appendMessage_begin now (mgr w) chatId message of
        (Inl e, st1) \<Rightarrow> w\<lparr>mgr := st1, returned := returned w @ [(caller, Inl e)]\<rparr>
      | (Inr p, st1) \<Rightarrow> w\<lparr>mgr := st1, inflight := inflight w @ [(caller, p)]\<rparr>)"
| "step w (Settle caller) =
     (case map_of (inflight w) caller of
        None \<Rightarrow> w
      | Some p \<Rightarrow>
          (case appendMessage_commit (mgr w) p of
             (seq, st1) \<Rightarrow> w\<lparr>mgr := st1,
                              inflight := AList.delete caller (inflight w),
                              returned := returned w @ [(caller, Inr seq)]\<rparr>))"

definition run :: "world \<Rightarrow> event list \<Rightarrow> world" where
  "run w evs = foldl step w evs"

text \<open>\<^verbatim>\<open>getMessage(chatId, seq)\<close>: \<open>None\<close> is the returned \<^verbatim>\<open>null\<close>.\<close>

definition getMessage ::
  "corestore_manager \<Rightarrow> string \<Rightarrow> int \<Rightarrow> (error + jsobj option) \<times> corestore_manager" where
  "getMessage st chatId seq =
     (case getChatCore st chatId None of
        (Inl e, st1) \<Rightarrow> (Inl e, st1)
      | (Inr c, st1) \<Rightarrow>
          if int (core_length st1 c) \<le> seq then (Inr None, st1)
          else (case core_get st1 c seq of
                  Inl e \<Rightarrow> (Inl e, st1)
                | Inr block \<Rightarrow> (Inr (Some block), st1)))"

text \<open>
  \<^verbatim>\<open>getAllMessages(chatId, options = {})\<close> with
  \<^verbatim>\<open>const {start = 0, end = core.length} = options\<close> and the loop
  \<^verbatim>\<open>for (let i = start; i < Math.min(end, core.length); i++)\<close>.
\<close>

record read_options =
  opt_start :: "int option"
  opt_end :: "int option"

function read_loop ::
  "corestore_manager \<Rightarrow> core \<Rightarrow> int \<Rightarrow> int \<Rightarrow> jsobj list \<Rightarrow> error + jsobj list" where
  "read_loop st c i e messages =
     (if i < min e (int (core_length st c)) then
        (case core_get st c i of
           Inl err \<Rightarrow> Inl err
         | Inr block \<Rightarrow> read_loop st c (i + 1) e (messages @ [block]))
      else Inr messages)"
  by pat_completeness auto
termination
  by (relation "measure (\<lambda>(st, c, i, e, messages). nat (min e (int (core_length st c)) - i))") auto

declare read_loop.simps [simp del]

definition getAllMessages ::
  "corestore_manager \<Rightarrow> string \<Rightarrow> read_options \<Rightarrow> (error + jsobj list) \<times> corestore_manager" where
  "getAllMessages st chatId options =
     (case getChatCore st chatId None of
        (Inl e, st1) \<Rightarrow> (Inl e, st1)
      | (Inr c, st1) \<Rightarrow>
          (let start = (case opt_start options of None \<Rightarrow> 0 | Some s \<Rightarrow> s);
               e = (case opt_end options of None \<Rightarrow> int (core_length st1 c) | Some x \<Rightarrow> x)
           in (read_loop st1 c start e [], st1)))"

text \<open>\<^verbatim>\<open>getCoreInfo(chatId)\<close>. The two keys are functions of the core's identity.\<close>

record core_info =
  info_chatId :: string
  info_discoveryKey :: core_id
  info_publicKey :: core_id
  info_writable :: bool
  info_length :: nat

definition getCoreInfo ::
  "corestore_manager \<Rightarrow> string \<Rightarrow> (error + core_info) \<times> corestore_manager" where
  "getCoreInfo st chatId =
     (case getChatCore st chatId None of
        (Inl e, st1) \<Rightarrow> (Inl e, st1)
      | (Inr c, st1) \<Rightarrow>
          (Inr \<lparr>info_chatId = chatId,
                info_discoveryKey = ident c,
                info_publicKey = ident c,
                info_writable = writable c,
                info_length = core_length st1 c\<rparr>, st1))"

definition closeCore :: "corestore_manager \<Rightarrow> string \<Rightarrow> corestore_manager" where
  "closeCore st chatId =
     (case map_of (cores st) chatId of
        Some c \<Rightarrow> st\<lparr>cores := AList.delete chatId (cores st)\<rparr>
      | None \<Rightarrow> st)"

definition cs_close :: "corestore_manager \<Rightarrow> corestore_manager" where
  "cs_close st = st\<lparr>cores := [], cs_ready := False\<rparr>"

section \<open>SwarmManager (backend/swarm-manager.js)\<close>

text \<open>
  A topic is the 32-byte \<^verbatim>\<open>crypto.hash\<close> of a string; the registry is keyed by its hex
  form, and the model identifies the two. The hash function is a parameter \<open>hash\<close>.
  \<open>discovery\<close> lists the topics announced through \<^verbatim>\<open>swarm.join\<close> and not yet destroyed,
  \<open>written\<close> the payloads handed to \<^verbatim>\<open>conn.write\<close>, by peer key. A value of this type
  is a manager whose \<^verbatim>\<open>swarm\<close> object exists.
\<close>

record peer_info =
  peer_client :: bool
  peer_connectedAt :: int

record topic_info =
  ti_chatId :: string
  ti_topicHex :: string
  ti_topicString :: string
  ti_connections :: "string list"
  ti_joinedAt :: int

record swarm_manager =
  sw_ready :: bool
  topics :: "(string \<times> topic_info) list"
  peers :: "(string \<times> peer_info) list"
  discovery :: "string list"
  written :: "(string \<times> jsobj) list"

definition sw_initialize :: "swarm_manager" where
  "sw_initialize = \<lparr>sw_ready = True, topics = [], peers = [], discovery = [], written = []\<rparr>"

text \<open>\<^verbatim>\<open>topicString || chatId\<close>: \<^verbatim>\<open>null\<close> and the empty string are both falsy.\<close>

definition topicStr_of :: "string option \<Rightarrow> string \<Rightarrow> string" where
  "topicStr_of topicString chatId =
     (case topicString of None \<Rightarrow> chatId | Some s \<Rightarrow> if s = [] then chatId else s)"

definition joinTopic ::
  "(string \<Rightarrow> string) \<Rightarrow> int \<Rightarrow> swarm_manager \<Rightarrow> string \<Rightarrow> string option
     \<Rightarrow> (error + topic_info) \<times> swarm_manager" where
  "joinTopic hash now sw chatId topicString =
     (if \<not> sw_ready sw then (Inl SwarmNotInitialized, sw)
      else
        (let topicStr = topicStr_of topicString chatId;
             th = hash topicStr
         in case map_of (topics sw) th of
              Some topicInfo \<Rightarrow> (Inr topicInfo, sw)
            | None \<Rightarrow>
                (let topicInfo = \<lparr>ti_chatId = chatId, ti_topicHex = th,
                                  ti_topicString = topicStr,
                                  ti_connections = [], ti_joinedAt = now\<rparr>
                 in (Inr topicInfo,
                     sw\<lparr>discovery := discovery sw @ [th],
                        topics := AList.update th topicInfo (topics sw)\<rparr>))))"

fun find_topic :: "(string \<times> topic_info) list \<Rightarrow> string \<Rightarrow> string option" where
  "find_topic [] chatId = None"
| "find_topic ((th, topicInfo) # rest) chatId =
     (if ti_chatId topicInfo = chatId then Some th else find_topic rest chatId)"

definition leaveTopic :: "swarm_manager \<Rightarrow> string \<Rightarrow> bool \<times> swarm_manager" where
  "leaveTopic sw chatId =
     (case find_topic (topics sw) chatId of
        Some th \<Rightarrow> (True, sw\<lparr>discovery := remove1 th (discovery sw),
                              topics := AList.delete th (topics sw)\<rparr>)
      | None \<Rightarrow> (False, sw))"

record peer_entry =
  pe_publicKey :: string
  pe_connectedAt :: int
  pe_client :: bool

definition topic_peers :: "swarm_manager \<Rightarrow> topic_info \<Rightarrow> peer_entry list" where
  "topic_peers sw topicInfo =
     List.map_filter
       (\<lambda>peerKey. case map_of (peers sw) peerKey of
                     None \<Rightarrow> None
                   | Some peer \<Rightarrow> Some \<lparr>pe_publicKey = peerKey,
                                          pe_connectedAt = peer_connectedAt peer,
                                          pe_client = peer_client peer\<rparr>)
       (ti_connections topicInfo)"

definition getConnectedPeers :: "swarm_manager \<Rightarrow> string \<Rightarrow> peer_entry list" where
  "getConnectedPeers sw chatId =
     concat (map (\<lambda>(th, topicInfo).
                    if ti_chatId topicInfo = chatId then topic_peers sw topicInfo else [])
                 (topics sw))"

definition broadcastMessage :: "int \<Rightarrow> swarm_manager \<Rightarrow> string \<Rightarrow> jsobj \<Rightarrow> swarm_manager" where
  "broadcastMessage now sw chatId message =
     (let payload = [(''type'', JStr ''chat-message''), (''chatId'', JStr chatId),
                     (''message'', JObj message), (''timestamp'', JNum now)]
      in sw\<lparr>written := written sw @
               map (\<lambda>peer. (pe_publicKey peer, payload))
                   (filter (\<lambda>peer. map_of (peers sw) (pe_publicKey peer) \<noteq> None)
                           (getConnectedPeers sw chatId))\<rparr>)"

text \<open>
  \<^verbatim>\<open>handleConnection(conn, info)\<close>: the peer is registered, and for each advertised topic
  that is joined here the peer is added to the topic's connection set and
  \<^verbatim>\<open>replicateCoreWithPeer\<close> fetches the chat's core (its errors are caught and logged).
\<close>

fun attach_topics ::
  "string \<Rightarrow> string list \<Rightarrow> swarm_manager \<times> corestore_manager
     \<Rightarrow> swarm_manager \<times> corestore_manager" where
  "attach_topics peerKey [] (sw, cs) = (sw, cs)"
| "attach_topics peerKey (th # rest) (sw, cs) =
     (case map_of (topics sw) th of
        None \<Rightarrow> attach_topics peerKey rest (sw, cs)
      | Some topicInfo \<Rightarrow>
          attach_topics peerKey rest
            (sw\<lparr>topics := AList.update th
                   (topicInfo\<lparr>ti_connections :=
                      (if peerKey \<in> set (ti_connections topicInfo) then ti_connections topicInfo
                       else ti_connections topicInfo @ [peerKey])\<rparr>)
                   (topics sw)\<rparr>,
             snd (getChatCore cs (ti_chatId topicInfo) None)))"

definition handleConnection ::
  "int \<Rightarrow> string \<Rightarrow> bool \<Rightarrow> string list \<Rightarrow> swarm_manager \<times> corestore_manager
     \<Rightarrow> swarm_manager \<times> corestore_manager" where
  "handleConnection now peerKey client advertised = (\<lambda>(sw, cs).
     attach_topics peerKey advertised
       (sw\<lparr>peers := AList.update peerKey
              \<lparr>peer_client = client, peer_connectedAt = now\<rparr> (peers sw)\<rparr>, cs))"

definition sw_close :: "swarm_manager \<Rightarrow> swarm_manager" where
  "sw_close sw = sw\<lparr>discovery := [], topics := [], peers := [], sw_ready := False\<rparr>"

section \<open>P2PManager (backend/p2p-manager.js)\<close>

text \<open>
  A session (\<^verbatim>\<open>chatInfo\<close>) holds the core handle and the \<^verbatim>\<open>topicInfo\<close> object; the latter
  is the registry's own object, kept here by its registry key. \<open>createChat\<close> returns
  one of two objects: the stored session when the chat is already registered, or a fresh
  literal \<^verbatim>\<open>{chatId, discoveryKey, publicKey, metadata, messageCount}\<close>.
\<close>

record chat_info =
  ci_chatId :: string
  ci_metadata :: jsobj
  ci_core :: core
  ci_topic :: string
  ci_createdAt :: "int option"
  ci_joinedAt :: "int option"
  ci_messageCount :: nat

record created_chat =
  cc_chatId :: string
  cc_discoveryKey :: string
  cc_publicKey :: core_info
  cc_metadata :: jsobj
  cc_messageCount :: nat

datatype create_result = Existing chat_info | Created created_chat

record joined_chat =
  jc_chatId :: string
  jc_discoveryKey :: string
  jc_metadata :: jsobj
  jc_messageCount :: nat
  jc_peers :: "peer_entry list"

record chat_details =
  cd_chatId :: string
  cd_metadata :: jsobj
  cd_messageCount :: nat
  cd_discoveryKey :: core_id
  cd_publicKey :: core_id
  cd_peers :: nat
  cd_connectedPeers :: "peer_entry list"
  cd_createdAt :: "int option"

record p2p_manager =
  corestoreManager :: corestore_manager
  swarmManager :: "swarm_manager option"
  initialized :: bool
  chats :: "(string \<times> chat_info) list"

definition p2p_new :: "p2p_manager" where
  "p2p_new = \<lparr>corestoreManager = \<lparr>cs_ready = False, cores = [], blocks = []\<rparr>,
              swarmManager = None, initialized = False, chats = []\<rparr>"

definition p2p_initialize :: "p2p_manager \<Rightarrow> p2p_manager" where
  "p2p_initialize st =
     st\<lparr>corestoreManager := cs_initialize (corestoreManager st),
        swarmManager := Some sw_initialize,
        initialized := True\<rparr>"

definition createChat ::
  "(string \<Rightarrow> string) \<Rightarrow> int \<Rightarrow> int \<Rightarrow> p2p_manager \<Rightarrow> string \<Rightarrow> jsobj
     \<Rightarrow> (error + create_result) \<times> p2p_manager" where
  "createChat hash t_join t_created st chatId metadata =
     (if \<not> initialized st then (Inl ManagerNotInitialized, st)
      else case map_of (chats st) chatId of
        Some chatInfo \<Rightarrow> (Inr (Existing chatInfo), st)
      | None \<Rightarrow>
          (case getChatCore (corestoreManager st) chatId None of
             (Inl e, cs1) \<Rightarrow> (Inl e, st\<lparr>corestoreManager := cs1\<rparr>)
           | (Inr c, cs1) \<Rightarrow>
               (case swarmManager st of
                  None \<Rightarrow> (Inl TypeError, st\<lparr>corestoreManager := cs1\<rparr>)
                | Some sw \<Rightarrow>
                    (case joinTopic hash t_join sw chatId None of
                       (Inl e, sw1) \<Rightarrow>
                         (Inl e, st\<lparr>corestoreManager := cs1, swarmManager := Some sw1\<rparr>)
                     | (Inr topicInfo, sw1) \<Rightarrow>
                         (let chatInfo = \<lparr>ci_chatId = chatId, ci_metadata = metadata,
                                          ci_core = c, ci_topic = ti_topicHex topicInfo,
                                          ci_createdAt = Some t_created, ci_joinedAt = None,
                                          ci_messageCount = core_length cs1 c\<rparr>;
                              st1 = st\<lparr>corestoreManager := cs1, swarmManager := Some sw1,
                                       chats := AList.update chatId chatInfo (chats st)\<rparr>
                          in case getCoreInfo cs1 chatId of
                               (Inl e, cs2) \<Rightarrow> (Inl e, st1\<lparr>corestoreManager := cs2\<rparr>)
                             | (Inr info, cs2) \<Rightarrow>
                                 (Inr (Created \<lparr>cc_chatId = chatId,
                                                cc_discoveryKey = ti_topicHex topicInfo,
                                                cc_publicKey = info,
                                                cc_metadata = metadata,
                                                cc_messageCount = core_length cs2 c\<rparr>),
                                  st1\<lparr>corestoreManager := cs2\<rparr>))))))"

definition joinChat ::
  "(string \<Rightarrow> string) \<Rightarrow> int \<Rightarrow> int \<Rightarrow> p2p_manager \<Rightarrow> string \<Rightarrow> string option \<Rightarrow> jsobj
     \<Rightarrow> (error + joined_chat) \<times> p2p_manager" where
  "joinChat hash t_join t_joined st chatId discoveryKey metadata =
     (if \<not> initialized st then (Inl ManagerNotInitialized, st)
      else case swarmManager st of
        None \<Rightarrow> (Inl TypeError, st)
      | Some sw \<Rightarrow>
          (case joinTopic hash t_join sw chatId discoveryKey of
             (Inl e, sw1) \<Rightarrow> (Inl e, st\<lparr>swarmManager := Some sw1\<rparr>)
           | (Inr topicInfo, sw1) \<Rightarrow>
               (case getChatCore (corestoreManager st) chatId None of
                  (Inl e, cs1) \<Rightarrow>
                    (Inl e, st\<lparr>corestoreManager := cs1, swarmManager := Some sw1\<rparr>)
                | (Inr c, cs1) \<Rightarrow>
                    (let chatInfo = \<lparr>ci_chatId = chatId, ci_metadata = metadata,
                                     ci_core = c, ci_topic = ti_topicHex topicInfo,
                                     ci_createdAt = None, ci_joinedAt = Some t_joined,
                                     ci_messageCount = core_length cs1 c\<rparr>
                     in (Inr \<lparr>jc_chatId = chatId,
                              jc_discoveryKey = ti_topicHex topicInfo,
                              jc_metadata = metadata,
                              jc_messageCount = core_length cs1 c,
                              jc_peers = getConnectedPeers sw1 chatId\<rparr>,
                         st\<lparr>corestoreManager := cs1, swarmManager := Some sw1,
                            chats := AList.update chatId chatInfo (chats st)\<rparr>)))))"

text \<open>
  \<^verbatim>\<open>sendMessage(chatId, message)\<close>. Three clock readings are arguments: the one taken
  inside \<^verbatim>\<open>appendMessage\<close>, the one taken for \<^verbatim>\<open>sentMessage\<close> and the one of the
  broadcast payload.
\<close>

definition sentMessage :: "jsobj \<Rightarrow> nat \<Rightarrow> int \<Rightarrow> string \<Rightarrow> jsobj" where
  "sentMessage message seq now chatId =
     AList.update ''chatId'' (JStr chatId)
       (AList.update ''timestamp'' (JNum now)
         (AList.update ''seq'' (JNum (int seq)) message))"

definition sendMessage ::
  "int \<Rightarrow> int \<Rightarrow> int \<Rightarrow> p2p_manager \<Rightarrow> string \<Rightarrow> jsobj \<Rightarrow> (error + jsobj) \<times> p2p_manager" where
  "sendMessage t_append t_sent t_broadcast st chatId message =
     (if \<not> initialized st then (Inl ManagerNotInitialized, st)
      else if map_of (chats st) chatId = None then (Inl (ChatNotFound chatId), st)
      else
        (case appendMessage t_append (corestoreManager st) chatId message of
           (Inl e, cs1) \<Rightarrow> (Inl e, st\<lparr>corestoreManager := cs1\<rparr>)
         | (Inr seq, cs1) \<Rightarrow>
             (case swarmManager st of
                None \<Rightarrow> (Inl TypeError, st\<lparr>corestoreManager := cs1\<rparr>)
              | Some sw \<Rightarrow>
                  (let sent = sentMessage message seq t_sent chatId
                   in (Inr sent,
                       st\<lparr>corestoreManager := cs1,
                          swarmManager := Some (broadcastMessage t_broadcast sw chatId sent)\<rparr>)))))"

definition getMessages ::
  "p2p_manager \<Rightarrow> string \<Rightarrow> read_options \<Rightarrow> (error + jsobj list) \<times> p2p_manager" where
  "getMessages st chatId options =
     (if \<not> initialized st then (Inl ManagerNotInitialized, st)
      else case getAllMessages (corestoreManager st) chatId options of
             (r, cs1) \<Rightarrow> (r, st\<lparr>corestoreManager := cs1\<rparr>))"

definition getChatInfo ::
  "p2p_manager \<Rightarrow> string \<Rightarrow> (error + chat_details) \<times> p2p_manager" where
  "getChatInfo st chatId =
     (case map_of (chats st) chatId of
        None \<Rightarrow> (Inl (ChatNotFound chatId), st)
      | Some chatInfo \<Rightarrow>
          (case getCoreInfo (corestoreManager st) chatId of
             (Inl e, cs1) \<Rightarrow> (Inl e, st\<lparr>corestoreManager := cs1\<rparr>)
           | (Inr coreInfo, cs1) \<Rightarrow>
               (case swarmManager st of
                  None \<Rightarrow> (Inl TypeError, st\<lparr>corestoreManager := cs1\<rparr>)
                | Some sw \<Rightarrow>
                    (let ps = getConnectedPeers sw chatId
                     in (Inr \<lparr>cd_chatId = chatId,
                              cd_metadata = ci_metadata chatInfo,
                              cd_messageCount = info_length coreInfo,
                              cd_discoveryKey = info_discoveryKey coreInfo,
                              cd_publicKey = info_publicKey coreInfo,
                              cd_peers = length ps,
                              cd_connectedPeers = ps,
                              cd_createdAt = (case ci_createdAt chatInfo of
                                                Some t \<Rightarrow> Some t
                                              | None \<Rightarrow> ci_joinedAt chatInfo)\<rparr>,
                         st\<lparr>corestoreManager := cs1\<rparr>)))))"

definition leaveChat :: "p2p_manager \<Rightarrow> string \<Rightarrow> (error + bool) \<times> p2p_manager" where
  "leaveChat st chatId =
     (if map_of (chats st) chatId = None then (Inr False, st)
      else case swarmManager st of
        None \<Rightarrow> (Inl TypeError, st)
      | Some sw \<Rightarrow>
          (Inr True,
           st\<lparr>swarmManager := Some (snd (leaveTopic sw chatId)),
              corestoreManager := closeCore (corestoreManager st) chatId,
              chats := AList.delete chatId (chats st)\<rparr>))"

definition shutdown :: "p2p_manager \<Rightarrow> p2p_manager" where
  "shutdown st =
     st\<lparr>swarmManager := map_option sw_close (swarmManager st),
        corestoreManager := cs_close (corestoreManager st),
        chats := [],
        initialized := False\<rparr>"

section \<open>A sequence of appends, and example states\<close>

text \<open>
  \<open>appendAll\<close> is a caller that awaits each \<^verbatim>\<open>appendMessage\<close> before it makes the next
  call, as the loop of the backend test script does through \<^verbatim>\<open>sendMessage\<close>.
\<close>

fun appendAll ::
  "corestore_manager \<Rightarrow> string \<Rightarrow> (jsobj \<times> int) list \<Rightarrow> (error + nat) list \<times> corestore_manager" where
  "appendAll st chatId [] = ([], st)"
| "appendAll st chatId ((message, now) # rest) =
     (case appendMessage now st chatId message of
        (r, st1) \<Rightarrow> (case appendAll st1 chatId rest of (rs, st2) \<Rightarrow> (r # rs, st2)))"

definition example_content :: jsobj where
  "example_content = [(''text'', JStr ''hi''), (''author'', JStr ''Alice''), (''authorId'', JStr ''u1'')]"

text \<open>A ready store in which the core of room-A is open and holds three messages.\<close>

definition example_store :: corestore_manager where
  "example_store =
     \<lparr>cs_ready = True,
      cores = [(''room-A'', store_get (ByName ''room-A''))],
      blocks = [(ByName ''room-A'',
                 [messageData example_content 1000 0,
                  messageData example_content 1001 1,
                  messageData example_content 1002 2])]\<rparr>"

text \<open>A ready store in which the core of room-A is open and empty; no call is in flight.\<close>

definition example_world :: world where
  "example_world =
     \<lparr>mgr = \<lparr>cs_ready = True, cores = [(''room-A'', store_get (ByName ''room-A''))], blocks = []\<rparr>,
      inflight = [], returned = []\<rparr>"

text \<open>The orchestrator after \<^verbatim>\<open>initialize()\<close> and \<^verbatim>\<open>createChat('room-A', {})\<close>.\<close>

definition example_session :: p2p_manager where
  "example_session = snd (createChat id 1 2 (p2p_initialize p2p_new) ''room-A'' [])"


section \<open>Auxiliary facts\<close>

lemma getChatCore_ready:
  "cs_ready st \<Longrightarrow> \<exists>c st1. getChatCore st chatId key = (Inr c, st1)"
  by (simp add: getChatCore_def Let_def split: option.split)

lemma getChatCore_blocks:
  "getChatCore st chatId key = (r, st1) \<Longrightarrow> blocks st1 = blocks st"
  by (auto simp: getChatCore_def Let_def split: if_splits option.splits)

lemma getChatCore_cached:
  "cs_ready st \<Longrightarrow> map_of (cores st) chatId = Some c \<Longrightarrow> getChatCore st chatId key = (Inr c, st)"
  by (simp add: getChatCore_def)

lemma core_log_append: "core_log (core_append st c b) c = core_log st c @ [b]"
  by (simp add: core_append_def core_log_def update_conv')

lemma core_length_append: "core_length (core_append st c b) c = Suc (core_length st c)"
  by (simp add: core_length_def core_log_append)

lemma core_append_keeps: "cs_ready (core_append st c b) = cs_ready st" "cores (core_append st c b) = cores st"
  by (simp_all add: core_append_def)

lemma appendMessage_alone:
  assumes "cs_ready st" and "map_of (cores st) chatId = Some c" and "writable c"
  shows "appendMessage now st chatId message =
           (Inr (core_length st c), core_append st c (messageData message now (core_length st c)))"
  using assms
  by (simp add: appendMessage_def appendMessage_begin_def appendMessage_commit_def getChatCore_def)

lemma appendAll_seqs:
  assumes "cs_ready st" and "map_of (cores st) chatId = Some c" and "writable c"
  shows "fst (appendAll st chatId ms) = map Inr [core_length st c ..< core_length st c + length ms]"
  using assms
proof (induction ms arbitrary: st)
  case Nil
  then show ?case by simp
next
  case (Cons m ms)
  obtain message now where m: "m = (message, now)" by (cases m)
  let ?st1 = "core_append st c (messageData message now (core_length st c))"
  have step: "appendMessage now st chatId message = (Inr (core_length st c), ?st1)"
    using Cons.prems by (rule appendMessage_alone)
  have ih: "fst (appendAll ?st1 chatId ms) =
              map Inr [core_length ?st1 c ..< core_length ?st1 c + length ms]"
    using Cons.prems by (intro Cons.IH) (simp_all add: core_append_keeps)
  have fst_step: "fst (appendAll st chatId (m # ms)) =
                    Inr (core_length st c) # fst (appendAll ?st1 chatId ms)"
    using step by (simp add: m split: prod.split)
  have range: "[core_length st c ..< core_length st c + length (m # ms)] =
                 core_length st c # [core_length ?st1 c ..< core_length ?st1 c + length ms]"
    by (subst upt_rec) (simp add: core_length_append)
  show ?case
    by (simp only: fst_step ih range list.map)
qed

lemma appendMessage_begin_cached:
  assumes "cs_ready st" and "map_of (cores st) chatId = Some c" and "writable c"
  shows "appendMessage_begin now st chatId message =
           (Inr \<lparr>p_core = c, p_data = messageData message now (core_length st c),
                 p_seq = core_length st c\<rparr>, st)"
  using assms by (simp add: appendMessage_begin_def getChatCore_def)

lemma overlapping_appends_same_seq:
  assumes "cs_ready st" and "map_of (cores st) chatId = Some c" and "writable c" and "a \<noteq> b"
  shows "returned (run \<lparr>mgr = st, inflight = [], returned = []\<rparr>
           [Submit a chatId m1 t1, Submit b chatId m2 t2, Settle a, Settle b]) =
         [(a, Inr (core_length st c)), (b, Inr (core_length st c))]"
  using assms
  by (simp add: run_def appendMessage_begin_cached appendMessage_commit_def core_append_keeps)

lemma read_loop_collects:
  "0 \<le> i \<Longrightarrow>
   read_loop st c i e acc =
     Inr (acc @ map (\<lambda>k. core_log st c ! k) [nat i ..< nat (min e (int (core_length st c)))])"
proof (induction st c i e acc rule: read_loop.induct)
  case (1 st c i e messages)
  let ?m = "min e (int (core_length st c))"
  let ?f = "\<lambda>k. core_log st c ! k"
  have unfold: "read_loop st c i e messages =
      (if i < ?m then
         (case core_get st c i of
            Inl err \<Rightarrow> Inl err
          | Inr block \<Rightarrow> read_loop st c (i + 1) e (messages @ [block]))
       else Inr messages)"
    by (rule read_loop.simps)
  show ?case
  proof (cases "i < ?m")
    case True
    with "1.prems" have get: "core_get st c i = Inr (core_log st c ! nat i)"
      by (simp add: core_get_def)
    from "1.prems" have "0 \<le> i + 1" by simp
    with "1.IH"[OF True get] have ih:
      "read_loop st c (i + 1) e (messages @ [core_log st c ! nat i]) =
         Inr ((messages @ [core_log st c ! nat i]) @ map ?f [nat (i + 1) ..< nat ?m])"
      by simp
    from True "1.prems" have lt: "nat i < nat ?m" and suc: "nat (i + 1) = Suc (nat i)"
      by linarith+
    from lt have range: "[nat i ..< nat ?m] = nat i # [Suc (nat i) ..< nat ?m]"
      by (rule upt_conv_Cons)
    have collected: "(messages @ [core_log st c ! nat i]) @ map ?f [Suc (nat i) ..< nat ?m] =
                 messages @ map ?f [nat i ..< nat ?m]"
      by (subst range) simp
    have "read_loop st c i e messages =
            read_loop st c (i + 1) e (messages @ [core_log st c ! nat i])"
      by (simp only: unfold True if_True get sum.case)
    also have "\<dots> = Inr ((messages @ [core_log st c ! nat i]) @ map ?f [Suc (nat i) ..< nat ?m])"
      by (simp only: ih suc)
    also have "\<dots> = Inr (messages @ map ?f [nat i ..< nat ?m])"
      by (simp only: collected)
    finally show ?thesis .
  next
    case False
    then have "nat ?m \<le> nat i" by linarith
    then have empty: "[nat i ..< nat ?m] = []" by simp
    have "read_loop st c i e messages = Inr messages"
      by (simp only: unfold False if_False)
    also have "\<dots> = Inr (messages @ map ?f [nat i ..< nat ?m])"
      by (simp only: empty list.map append_Nil2)
    finally show ?thesis .
  qed
qed

lemma sent_stored_fields:
  "k \<noteq> ''timestamp'' \<Longrightarrow> k \<noteq> ''chatId'' \<Longrightarrow>
   map_of (sentMessage message n ts chatId) k = map_of (messageData message ta n) k"
  by (simp add: sentMessage_def messageData_def update_conv')

lemma example_session_eq:
  "example_session =
     \<lparr>corestoreManager =
        \<lparr>cs_ready = True,
         cores = [(''room-A'', \<lparr>ident = ByName ''room-A'', writable = True\<rparr>)],
         blocks = []\<rparr>,
      swarmManager =
        Some \<lparr>sw_ready = True,
              topics = [(''room-A'',
                         \<lparr>ti_chatId = ''room-A'', ti_topicHex = ''room-A'',
                          ti_topicString = ''room-A'', ti_connections = [],
                          ti_joinedAt = 1\<rparr>)],
              peers = [], discovery = [''room-A''], written = []\<rparr>,
      initialized = True,
      chats = [(''room-A'',
                \<lparr>ci_chatId = ''room-A'', ci_metadata = [],
                 ci_core = \<lparr>ident = ByName ''room-A'', writable = True\<rparr>,
                 ci_topic = ''room-A'', ci_createdAt = Some 2, ci_joinedAt = None,
                 ci_messageCount = 0\<rparr>)]\<rparr>"
  by (simp add: example_session_def createChat_def p2p_initialize_def p2p_new_def cs_initialize_def
      sw_initialize_def joinTopic_def topicStr_of_def getChatCore_def getCoreInfo_def store_get_def
      core_length_def core_log_def Let_def)

lemma example_store_core:
  "getChatCore example_store ''room-A'' None = (Inr (store_get (ByName ''room-A'')), example_store)"
  by (simp add: getChatCore_def example_store_def)

lemma example_store_log:
  "core_log example_store (store_get (ByName ''room-A'')) =
     [messageData example_content 1000 0, messageData example_content 1001 1,
      messageData example_content 1002 2]"
  by (simp add: core_log_def example_store_def store_get_def)

lemma createChat_registered:
  "initialized st \<Longrightarrow> map_of (chats st) chatId = Some chatInfo \<Longrightarrow>
   createChat hash t_join t_created st chatId metadata = (Inr (Existing chatInfo), st)"
  by (simp add: createChat_def)

lemma getChatCore_uncached:
  "cs_ready st \<Longrightarrow> map_of (cores st) chatId = None \<Longrightarrow>
   getChatCore st chatId None =
     (Inr (store_get (ByName chatId)),
      st\<lparr>cores := AList.update chatId (store_get (ByName chatId)) (cores st)\<rparr>)"
  by (simp add: getChatCore_def Let_def)

lemma joinChat_core_by_name:
  assumes "joinChat hash t_join t_joined st chatId discoveryKey metadata = (Inr r, st1)"
      and "map_of (cores (corestoreManager st)) chatId = None"
  shows "map_of (cores (corestoreManager st1)) chatId = Some (store_get (ByName chatId))"
proof -
  from assms(1) have i: "initialized st"
    by (simp add: joinChat_def split: if_splits)
  from assms(1) i obtain sw where sw: "swarmManager st = Some sw"
    by (cases "swarmManager st") (simp_all add: joinChat_def)
  obtain jr sw1 where j: "joinTopic hash t_join sw chatId discoveryKey = (jr, sw1)"
    by (cases "joinTopic hash t_join sw chatId discoveryKey")
  from assms(1) i sw j obtain topicInfo where jr: "jr = Inr topicInfo"
    by (cases jr) (simp_all add: joinChat_def)
  obtain gr cs1 where g: "getChatCore (corestoreManager st) chatId None = (gr, cs1)"
    by (cases "getChatCore (corestoreManager st) chatId None")
  from assms(1) i sw j jr g obtain c where gr: "gr = Inr c"
    by (cases gr) (simp_all add: joinChat_def)
  from g gr have ready: "cs_ready (corestoreManager st)"
    by (auto simp: getChatCore_def split: if_splits)
  from getChatCore_uncached [OF ready assms(2)] g gr
  have c: "c = store_get (ByName chatId)"
    and cs1: "cs1 = (corestoreManager st)\<lparr>cores := AList.update chatId (store_get (ByName chatId))
                                              (cores (corestoreManager st))\<rparr>"
    by simp_all
  from assms(1) i sw j jr g gr have "corestoreManager st1 = cs1"
    by (auto simp: joinChat_def Let_def)
  with cs1 show ?thesis
    by (simp add: update_conv')
qed

section \<open>Claims\<close>

subsection \<open>C1: sequence numbers of appends\<close>

text \<open>
  C1. Two calls of \<^verbatim>\<open>appendMessage\<close> on the same writable chat, the second submitted while
  the first is suspended at \<^verbatim>\<open>await core.append\<close>: both read \<^verbatim>\<open>core.length = 0\<close>, so both
  return sequence number 0 and both stored entries carry \<^verbatim>\<open>seq: 0\<close>, although the second
  entry is stored at position 1. The returned numbers are not \<open>0..N-1\<close> without duplicates.
  The same holds on every open writable log (\<open>overlapping_appends_same_seq\<close>). Calls
  that are awaited one after the other do get \<open>length, length + 1, ...\<close>
  (\<open>appendAll_seqs\<close>).
\<close>

theorem concurrent_appends_share_seq:
  "returned (run example_world
      [Submit 0 ''room-A'' [(''text'', JStr ''a'')] 100,
       Submit 1 ''room-A'' [(''text'', JStr ''b'')] 101,
       Settle 0, Settle 1]) = [(0, Inr 0), (1, Inr 0)]
   \<and> core_log (mgr (run example_world
      [Submit 0 ''room-A'' [(''text'', JStr ''a'')] 100,
       Submit 1 ''room-A'' [(''text'', JStr ''b'')] 101,
       Settle 0, Settle 1])) (store_get (ByName ''room-A'')) =
      [[(''text'', JStr ''a''), (''timestamp'', JNum 100), (''seq'', JNum 0)],
       [(''text'', JStr ''b''), (''timestamp'', JNum 101), (''seq'', JNum 0)]]"
  by (simp add: run_def example_world_def appendMessage_begin_def appendMessage_commit_def
      getChatCore_def store_get_def core_length_def core_log_def core_append_def messageData_def)

subsection \<open>C2: what sendMessage returns\<close>

text \<open>
  C2, as amended. For an initialized orchestrator with a session for the chat, whose core
  is open and writable, and a call that no other append interleaves with:
  \<^verbatim>\<open>sendMessage\<close> succeeds; the log grows by exactly one entry, stored
  at the position that is the returned \<^verbatim>\<open>seq\<close>; the returned object and the stored entry
  agree on every field other than \<^verbatim>\<open>timestamp\<close> and \<^verbatim>\<open>chatId\<close> (so on \<^verbatim>\<open>text\<close>,
  \<^verbatim>\<open>author\<close>, \<^verbatim>\<open>authorId\<close> and \<^verbatim>\<open>seq\<close>). The returned \<^verbatim>\<open>timestamp\<close> is the clock reading
  taken by \<^verbatim>\<open>sendMessage\<close> after the append, the stored one is the reading taken inside
  \<^verbatim>\<open>appendMessage\<close>; the returned \<^verbatim>\<open>chatId\<close> is the argument.
\<close>

theorem sendMessage_agrees_with_stored:
  assumes "initialized st"
      and "map_of (chats st) chatId = Some chatInfo"
      and "cs_ready (corestoreManager st)"
      and "map_of (cores (corestoreManager st)) chatId = Some c"
      and "writable c"
      and "swarmManager st = Some sw"
  shows "fst (sendMessage ta ts tb st chatId message) =
           Inr (sentMessage message (core_length (corestoreManager st) c) ts chatId)
       \<and> core_log (corestoreManager (snd (sendMessage ta ts tb st chatId message))) c =
           core_log (corestoreManager st) c @
             [messageData message ta (core_length (corestoreManager st) c)]
       \<and> core_log (corestoreManager (snd (sendMessage ta ts tb st chatId message))) c
             ! core_length (corestoreManager st) c =
           messageData message ta (core_length (corestoreManager st) c)
       \<and> (\<forall>k. k \<noteq> ''timestamp'' \<and> k \<noteq> ''chatId'' \<longrightarrow>
            map_of (sentMessage message (core_length (corestoreManager st) c) ts chatId) k =
            map_of (messageData message ta (core_length (corestoreManager st) c)) k)
       \<and> map_of (sentMessage message (core_length (corestoreManager st) c) ts chatId) ''seq'' =
           Some (JNum (int (core_length (corestoreManager st) c)))
       \<and> map_of (sentMessage message (core_length (corestoreManager st) c) ts chatId) ''timestamp'' =
           Some (JNum ts)
       \<and> map_of (messageData message ta (core_length (corestoreManager st) c)) ''timestamp'' =
           Some (JNum ta)
       \<and> map_of (sentMessage message (core_length (corestoreManager st) c) ts chatId) ''chatId'' =
           Some (JStr chatId)"
proof -
  let ?cs = "corestoreManager st"
  let ?n = "core_length ?cs c"
  have app: "appendMessage ta ?cs chatId message =
               (Inr ?n, core_append ?cs c (messageData message ta ?n))"
    using assms(3,4,5) by (rule appendMessage_alone)
  have send: "sendMessage ta ts tb st chatId message =
                (Inr (sentMessage message ?n ts chatId),
                 st\<lparr>corestoreManager := core_append ?cs c (messageData message ta ?n),
                    swarmManager := Some (broadcastMessage tb sw chatId
                                           (sentMessage message ?n ts chatId))\<rparr>)"
    using assms(1,2,6) app by (simp add: sendMessage_def Let_def)
  have log: "core_log (corestoreManager (snd (sendMessage ta ts tb st chatId message))) c =
               core_log ?cs c @ [messageData message ta ?n]"
    by (simp add: send core_log_append)
  have at: "core_log (corestoreManager (snd (sendMessage ta ts tb st chatId message))) c ! ?n =
              messageData message ta ?n"
    by (simp add: log core_length_def)
  have fields: "\<forall>k. k \<noteq> ''timestamp'' \<and> k \<noteq> ''chatId'' \<longrightarrow>
                  map_of (sentMessage message ?n ts chatId) k = map_of (messageData message ta ?n) k"
    by (simp add: sent_stored_fields)
  have rest: "map_of (sentMessage message ?n ts chatId) ''seq'' = Some (JNum (int ?n))"
    "map_of (sentMessage message ?n ts chatId) ''timestamp'' = Some (JNum ts)"
    "map_of (messageData message ta ?n) ''timestamp'' = Some (JNum ta)"
    "map_of (sentMessage message ?n ts chatId) ''chatId'' = Some (JStr chatId)"
    by (simp_all add: sentMessage_def messageData_def update_conv')
  from send log at fields rest show ?thesis by simp
qed

text \<open>
  The theorem at the session of room-A, with the append stamped at 1000 and the returned
  object at 1001.
\<close>

theorem sendMessage_agrees_with_stored_witness:
  "initialized example_session
   \<and> map_of (chats example_session) ''room-A'' \<noteq> None
   \<and> cs_ready (corestoreManager example_session)
   \<and> map_of (cores (corestoreManager example_session)) ''room-A'' = Some (store_get (ByName ''room-A''))
   \<and> writable (store_get (ByName ''room-A''))
   \<and> swarmManager example_session \<noteq> None
   \<and> fst (sendMessage 1000 1001 1002 example_session ''room-A'' example_content) =
       Inr [(''text'', JStr ''hi''), (''author'', JStr ''Alice''), (''authorId'', JStr ''u1''),
            (''seq'', JNum 0), (''timestamp'', JNum 1001), (''chatId'', JStr ''room-A'')]
   \<and> core_log (corestoreManager (snd (sendMessage 1000 1001 1002 example_session ''room-A'' example_content)))
        (store_get (ByName ''room-A'')) =
       [[(''text'', JStr ''hi''), (''author'', JStr ''Alice''), (''authorId'', JStr ''u1''),
         (''timestamp'', JNum 1000), (''seq'', JNum 0)]]"
proof -
  have h1: "initialized example_session" by (simp add: example_session_eq)
  have h2: "map_of (chats example_session) ''room-A'' =
              Some \<lparr>ci_chatId = ''room-A'', ci_metadata = [],
                    ci_core = \<lparr>ident = ByName ''room-A'', writable = True\<rparr>,
                    ci_topic = ''room-A'', ci_createdAt = Some 2, ci_joinedAt = None,
                    ci_messageCount = 0\<rparr>"
    by (simp add: example_session_eq)
  have h3: "cs_ready (corestoreManager example_session)" by (simp add: example_session_eq)
  have h4: "map_of (cores (corestoreManager example_session)) ''room-A'' =
              Some (store_get (ByName ''room-A''))"
    by (simp add: example_session_eq store_get_def)
  have h5: "writable (store_get (ByName ''room-A''))" by (simp add: store_get_def)
  have h6: "swarmManager example_session =
              Some \<lparr>sw_ready = True,
                    topics = [(''room-A'',
                               \<lparr>ti_chatId = ''room-A'', ti_topicHex = ''room-A'',
                                ti_topicString = ''room-A'', ti_connections = [],
                                ti_joinedAt = 1\<rparr>)],
                    peers = [], discovery = [''room-A''], written = []\<rparr>"
    by (simp add: example_session_eq)
  have n: "core_length (corestoreManager example_session) (store_get (ByName ''room-A'')) = 0"
    by (simp add: example_session_eq core_length_def core_log_def store_get_def)
  have l: "core_log (corestoreManager example_session) (store_get (ByName ''room-A'')) = []"
    by (simp add: example_session_eq core_log_def store_get_def)
  show ?thesis
    using sendMessage_agrees_with_stored [OF h1 h2 h3 h4 h5 h6, of 1000 1001 1002 example_content]
      h1 h2 h3 h4 h5 h6
    by (simp add: n l sentMessage_def messageData_def example_content_def)
qed

text \<open>
  The claim as stated fails there: the returned \<^verbatim>\<open>timestamp\<close> is 1001 and the stored one
  1000, and the stored entry has no \<^verbatim>\<open>chatId\<close> field while the returned object has one.
\<close>

theorem sendMessage_stored_counterexample:
  "map_of (chats example_session) ''room-A'' \<noteq> None
   \<and> map_of (projr (fst (sendMessage 1000 1001 1002 example_session ''room-A'' example_content)))
        ''timestamp'' = Some (JNum 1001)
   \<and> map_of (core_log (corestoreManager
                 (snd (sendMessage 1000 1001 1002 example_session ''room-A'' example_content)))
               (store_get (ByName ''room-A'')) ! 0)
        ''timestamp'' = Some (JNum 1000)
   \<and> map_of (projr (fst (sendMessage 1000 1001 1002 example_session ''room-A'' example_content)))
        ''chatId'' = Some (JStr ''room-A'')
   \<and> map_of (core_log (corestoreManager
                 (snd (sendMessage 1000 1001 1002 example_session ''room-A'' example_content)))
               (store_get (ByName ''room-A'')) ! 0)
        ''chatId'' = None"
  by (simp add: example_session_eq sendMessage_def appendMessage_def appendMessage_begin_def
      appendMessage_commit_def getChatCore_def core_append_def core_length_def core_log_def
      store_get_def sentMessage_def messageData_def example_content_def Let_def)

subsection \<open>C3: the log opened by joinChat\<close>

text \<open>
  C3. \<^verbatim>\<open>joinChat('room-B', 'a1b2', {})\<close> on a freshly initialized orchestrator: the supplied
  address is handed to \<^verbatim>\<open>joinTopic\<close> only, and \<^verbatim>\<open>getChatCore(chatId)\<close> is called without a
  key, so the core that is opened and registered is the new-identity, writable core named
  after the chatId, not the core addressed by \<^verbatim>\<open>a1b2\<close>. (For every input:
  \<open>joinChat_core_by_name\<close>.)
\<close>

theorem joinChat_opens_named_core:
  "cores (corestoreManager (snd (joinChat hash 1 2 (p2p_initialize p2p_new) ''room-B'' (Some ''a1b2'') [])))
     = [(''room-B'', \<lparr>ident = ByName ''room-B'', writable = True\<rparr>)]"
  by (simp add: joinChat_def p2p_initialize_def p2p_new_def cs_initialize_def sw_initialize_def
      joinTopic_def topicStr_of_def getChatCore_def store_get_def Let_def)

subsection \<open>C4: operations on a chat without a session\<close>

text \<open>
  C4, as amended. For a chatId that has no session: \<^verbatim>\<open>leaveChat\<close> returns \<^verbatim>\<open>false\<close> and
  changes nothing; \<^verbatim>\<open>getChatInfo\<close> throws "Chat not found"; \<^verbatim>\<open>sendMessage\<close> throws
  "Chat not found" when the orchestrator is initialized and "P2P Manager not initialized"
  when it is not. None of the three changes the state.
\<close>

theorem absent_session_operations:
  assumes "map_of (chats st) chatId = None"
  shows "leaveChat st chatId = (Inr False, st)
       \<and> getChatInfo st chatId = (Inl (ChatNotFound chatId), st)
       \<and> sendMessage ta ts tb st chatId message =
           (if initialized st then (Inl (ChatNotFound chatId), st)
            else (Inl ManagerNotInitialized, st))"
  using assms by (simp add: leaveChat_def getChatInfo_def sendMessage_def)

text \<open>
The theorem at an initialized orchestrator without any session.
\<close>

theorem absent_session_operations_witness:
  "map_of (chats (p2p_initialize p2p_new)) ''ghost'' = None
   \<and> leaveChat (p2p_initialize p2p_new) ''ghost'' = (Inr False, p2p_initialize p2p_new)
   \<and> getChatInfo (p2p_initialize p2p_new) ''ghost'' = (Inl (ChatNotFound ''ghost''), p2p_initialize p2p_new)
   \<and> sendMessage 1 2 3 (p2p_initialize p2p_new) ''ghost'' example_content =
        (Inl (ChatNotFound ''ghost''), p2p_initialize p2p_new)"
proof -
  have h: "map_of (chats (p2p_initialize p2p_new)) ''ghost'' = None"
    by (simp add: p2p_initialize_def p2p_new_def)
  have i: "initialized (p2p_initialize p2p_new)"
    by (simp add: p2p_initialize_def)
  show ?thesis
    using h i absent_session_operations [OF h, of 1 2 3 example_content] by simp
qed

text \<open>
  The claim as stated fails twice. On an orchestrator that is not initialized,
  \<^verbatim>\<open>sendMessage\<close> on a chat without a session throws "P2P Manager not initialized", not
  "Chat not found". On an initialized one, \<^verbatim>\<open>getMessages\<close> on a chat without a session
  does not throw: it never looks at the sessions, opens a core for the chatId and returns
  the empty list.
\<close>

theorem absent_session_counterexample:
  "map_of (chats p2p_new) ''ghost'' = None
   \<and> fst (sendMessage 1 2 3 p2p_new ''ghost'' example_content) = Inl ManagerNotInitialized
   \<and> map_of (chats (p2p_initialize p2p_new)) ''ghost'' = None
   \<and> fst (getMessages (p2p_initialize p2p_new) ''ghost'' \<lparr>opt_start = None, opt_end = None\<rparr>) = Inr []"
  by (simp add: sendMessage_def getMessages_def getAllMessages_def p2p_initialize_def p2p_new_def
      cs_initialize_def getChatCore_def store_get_def core_length_def core_log_def read_loop.simps
      Let_def)

subsection \<open>C6: joinTopic\<close>

text \<open>
  C6, as amended. On a ready swarm manager \<^verbatim>\<open>joinTopic\<close> succeeds, and the same call made
  again returns the same handle and changes nothing. The handle is registered under the
  topic \<open>hash (topicStr_of topicString chatId)\<close>, which depends on the arguments only and
  not on the instance: the hash of the explicit topic when that is a non-empty string, of
  the chatId otherwise. If that topic was not joined, the call announces it once and the
  handle carries it; if it was joined (by whichever chatId), the call returns the
  registered handle and announces nothing.
\<close>

theorem joinTopic_idempotent_per_topic:
  assumes "sw_ready sw"
  shows "\<exists>topicInfo sw1.
           joinTopic hash now sw chatId topicString = (Inr topicInfo, sw1)
         \<and> joinTopic hash now' sw1 chatId topicString = (Inr topicInfo, sw1)
         \<and> map_of (topics sw1) (hash (topicStr_of topicString chatId)) = Some topicInfo
         \<and> (map_of (topics sw) (hash (topicStr_of topicString chatId)) = None \<longrightarrow>
              ti_topicHex topicInfo = hash (topicStr_of topicString chatId)
            \<and> discovery sw1 = discovery sw @ [hash (topicStr_of topicString chatId)])
         \<and> (map_of (topics sw) (hash (topicStr_of topicString chatId)) \<noteq> None \<longrightarrow> sw1 = sw)"
proof (cases "map_of (topics sw) (hash (topicStr_of topicString chatId))")
  case None
  with assms show ?thesis
    by (simp add: joinTopic_def Let_def update_conv')
next
  case (Some topicInfo)
  with assms show ?thesis
    by (simp add: joinTopic_def Let_def)
qed

text \<open>
The theorem at a fresh swarm manager, with the identity in the place of the hash.
\<close>

theorem joinTopic_idempotent_per_topic_witness:
  "sw_ready sw_initialize
   \<and> joinTopic id 0 sw_initialize ''room-A'' None =
       (Inr \<lparr>ti_chatId = ''room-A'', ti_topicHex = ''room-A'', ti_topicString = ''room-A'',
             ti_connections = [], ti_joinedAt = 0\<rparr>,
        \<lparr>sw_ready = True,
         topics = [(''room-A'', \<lparr>ti_chatId = ''room-A'', ti_topicHex = ''room-A'',
                                 ti_topicString = ''room-A'', ti_connections = [],
                                 ti_joinedAt = 0\<rparr>)],
         peers = [], discovery = [''room-A''], written = []\<rparr>)
   \<and> joinTopic id 5 (snd (joinTopic id 0 sw_initialize ''room-A'' None)) ''room-A'' None =
       joinTopic id 0 sw_initialize ''room-A'' None"
proof -
  have h: "sw_ready sw_initialize" by (simp add: sw_initialize_def)
  have e: "map_of (topics sw_initialize) (id (topicStr_of None ''room-A'')) = None"
    by (simp add: sw_initialize_def)
  from joinTopic_idempotent_per_topic [OF h, of id 0 "''room-A''" None 5]
  obtain topicInfo sw1 where
    a: "joinTopic id 0 sw_initialize ''room-A'' None = (Inr topicInfo, sw1)" and
    b: "joinTopic id 5 sw1 ''room-A'' None = (Inr topicInfo, sw1)"
    by blast
  have c: "joinTopic id 0 sw_initialize ''room-A'' None =
       (Inr \<lparr>ti_chatId = ''room-A'', ti_topicHex = ''room-A'', ti_topicString = ''room-A'',
             ti_connections = [], ti_joinedAt = 0\<rparr>,
        \<lparr>sw_ready = True,
         topics = [(''room-A'', \<lparr>ti_chatId = ''room-A'', ti_topicHex = ''room-A'',
                                 ti_topicString = ''room-A'', ti_connections = [],
                                 ti_joinedAt = 0\<rparr>)],
         peers = [], discovery = [''room-A''], written = []\<rparr>)"
    by (simp add: joinTopic_def sw_initialize_def topicStr_of_def Let_def)
  from a b have "joinTopic id 5 (snd (joinTopic id 0 sw_initialize ''room-A'' None)) ''room-A'' None =
       joinTopic id 0 sw_initialize ''room-A'' None"
    by simp
  with h c show ?thesis by simp
qed

text \<open>
  The claim as stated fails: with the empty string as explicit topic the topic joined is
  the hash of the chatId, not the hash of the empty string (\<^verbatim>\<open>||\<close> is not \<^verbatim>\<open>??\<close>); and
  two joins of one chatId with different explicit topics announce twice, since the registry
  is keyed by topic and not by chatId.
\<close>

theorem joinTopic_counterexample:
  "map_of (topics (snd (joinTopic id 0 sw_initialize ''room-A'' (Some '''')))) (id '''') = None
   \<and> map_of (topics (snd (joinTopic id 0 sw_initialize ''room-A'' (Some '''')))) (id ''room-A'') \<noteq> None
   \<and> discovery (snd (joinTopic id 1 (snd (joinTopic id 0 sw_initialize ''room-A'' (Some ''x'')))
                        ''room-A'' (Some ''y''))) = [''x'', ''y'']"
  by (simp add: joinTopic_def sw_initialize_def topicStr_of_def Let_def)

subsection \<open>C7: createChat called twice\<close>

text \<open>
  C7. \<^verbatim>\<open>createChat('room-A', {})\<close> twice on a freshly initialized orchestrator: the first
  call returns \<^verbatim>\<open>{chatId, discoveryKey, publicKey, metadata, messageCount}\<close>; the second
  returns the stored session \<^verbatim>\<open>{chatId, metadata, core, topic, createdAt, messageCount}\<close>,
  which has no \<^verbatim>\<open>discoveryKey\<close> and no \<^verbatim>\<open>publicKey\<close>. The second call leaves the state as
  it is: no second core, session or announce. (For every input: \<open>createChat_registered\<close>.)
\<close>

theorem createChat_twice_differs:
  "fst (createChat id 1 2 (p2p_initialize p2p_new) ''room-A'' []) =
     Inr (Created \<lparr>cc_chatId = ''room-A'', cc_discoveryKey = ''room-A'',
                   cc_publicKey = \<lparr>info_chatId = ''room-A'',
                                   info_discoveryKey = ByName ''room-A'',
                                   info_publicKey = ByName ''room-A'',
                                   info_writable = True, info_length = 0\<rparr>,
                   cc_metadata = [], cc_messageCount = 0\<rparr>)
   \<and> fst (createChat id 3 4 example_session ''room-A'' []) =
     Inr (Existing \<lparr>ci_chatId = ''room-A'', ci_metadata = [],
                    ci_core = \<lparr>ident = ByName ''room-A'', writable = True\<rparr>,
                    ci_topic = ''room-A'', ci_createdAt = Some 2, ci_joinedAt = None,
                    ci_messageCount = 0\<rparr>)
   \<and> snd (createChat id 3 4 example_session ''room-A'' []) = example_session"
  by (simp add: example_session_def createChat_def p2p_initialize_def p2p_new_def cs_initialize_def
      sw_initialize_def joinTopic_def topicStr_of_def getChatCore_def getCoreInfo_def store_get_def
      core_length_def core_log_def Let_def)

subsection \<open>C8: reading a range\<close>

text \<open>
  C8, as amended. With the core of the chat at hand and \<open>0 \<le> start\<close>,
  \<^verbatim>\<open>getAllMessages(chatId, {start, end})\<close> returns exactly the entries at the positions
  \<open>start \<le> k < min end length\<close>, in this order, and never throws; it returns the
  empty list when \<open>start \<ge> length\<close>, so on an empty log too; without options it
  returns the whole log.
\<close>

theorem getAllMessages_range:
  assumes "getChatCore st chatId None = (Inr c, st1)" and "0 \<le> start"
  shows "getAllMessages st chatId \<lparr>opt_start = Some start, opt_end = Some e\<rparr> =
           (Inr (map (\<lambda>k. core_log st1 c ! k)
                     [nat start ..< nat (min e (int (core_length st1 c)))]), st1)
       \<and> (int (core_length st1 c) \<le> start \<longrightarrow>
            getAllMessages st chatId \<lparr>opt_start = Some start, opt_end = Some e\<rparr> = (Inr [], st1))
       \<and> getAllMessages st chatId \<lparr>opt_start = None, opt_end = None\<rparr> = (Inr (core_log st1 c), st1)"
proof -
  have a: "getAllMessages st chatId \<lparr>opt_start = Some start, opt_end = Some e\<rparr> =
           (Inr (map (\<lambda>k. core_log st1 c ! k)
                     [nat start ..< nat (min e (int (core_length st1 c)))]), st1)"
    using assms by (simp add: getAllMessages_def read_loop_collects)
  have b: "getAllMessages st chatId \<lparr>opt_start = None, opt_end = None\<rparr> = (Inr (core_log st1 c), st1)"
    using assms(1) by (simp add: getAllMessages_def read_loop_collects core_length_def map_nth)
  from a b show ?thesis by auto
qed

text \<open>
The theorem at the store that holds three messages of room-A.
\<close>

theorem getAllMessages_range_witness:
  "getChatCore example_store ''room-A'' None = (Inr (store_get (ByName ''room-A'')), example_store)
   \<and> (0::int) \<le> 1
   \<and> getAllMessages example_store ''room-A'' \<lparr>opt_start = Some 1, opt_end = Some 5\<rparr> =
       (Inr [messageData example_content 1001 1, messageData example_content 1002 2], example_store)
   \<and> getAllMessages example_store ''room-A'' \<lparr>opt_start = Some 3, opt_end = Some 5\<rparr> =
       (Inr [], example_store)
   \<and> getAllMessages example_store ''room-A'' \<lparr>opt_start = None, opt_end = None\<rparr> =
       (Inr [messageData example_content 1000 0, messageData example_content 1001 1,
             messageData example_content 1002 2], example_store)"
proof -
  have p1: "(0::int) \<le> 1" by simp
  have p3: "(0::int) \<le> 3" by simp
  have r1: "[Suc 0 ..< 3] = [Suc 0, 2]"
    by (simp add: upt_rec)
  show ?thesis
    using getAllMessages_range [OF example_store_core p1, of 5]
      getAllMessages_range [OF example_store_core p3, of 5]
      example_store_core
    by (simp add: core_length_def example_store_log r1)
qed

text \<open>
  The claim as stated fails for a negative start: the loop begins at \<open>i = -1\<close> and asks the
  core for the block at index \<open>-1\<close>, which is not a block index; no entries are returned.
\<close>

theorem getAllMessages_negative_start_counterexample:
  "fst (getAllMessages example_store ''room-A'' \<lparr>opt_start = Some (- 1), opt_end = Some 1\<rparr>) =
     Inl BlockIndexInvalid
   \<and> core_length example_store (store_get (ByName ''room-A'')) = 3"
  by (simp add: getAllMessages_def example_store_core read_loop.simps core_get_def core_length_def
      example_store_log)

subsection \<open>C9: reading one entry\<close>

text \<open>
  C9, as amended. With the core of the chat at hand, \<^verbatim>\<open>getMessage(chatId, seq)\<close> returns
  \<^verbatim>\<open>null\<close> when \<open>seq \<ge> length\<close> and the stored entry when \<open>0 \<le> seq < length\<close>,
  without throwing. A negative \<open>seq\<close> passes the only guard, \<^verbatim>\<open>seq >= core.length\<close>, and
  reaches the block read, which rejects the index: the call throws.
\<close>

theorem getMessage_by_range:
  assumes "getChatCore st chatId None = (Inr c, st1)"
  shows "(int (core_length st1 c) \<le> seq \<longrightarrow> getMessage st chatId seq = (Inr None, st1))
       \<and> (0 \<le> seq \<and> seq < int (core_length st1 c) \<longrightarrow>
            getMessage st chatId seq = (Inr (Some (core_log st1 c ! nat seq)), st1))
       \<and> (seq < 0 \<longrightarrow> getMessage st chatId seq = (Inl BlockIndexInvalid, st1))"
  using assms by (auto simp: getMessage_def core_get_def)

text \<open>
The theorem at the store that holds three messages of room-A.
\<close>

theorem getMessage_by_range_witness:
  "getChatCore example_store ''room-A'' None = (Inr (store_get (ByName ''room-A'')), example_store)
   \<and> getMessage example_store ''room-A'' 3 = (Inr None, example_store)
   \<and> getMessage example_store ''room-A'' 7 = (Inr None, example_store)
   \<and> getMessage example_store ''room-A'' 1 = (Inr (Some (messageData example_content 1001 1)), example_store)
   \<and> getMessage example_store ''room-A'' (- 2) = (Inl BlockIndexInvalid, example_store)"
  using getMessage_by_range [OF example_store_core, of 3]
    getMessage_by_range [OF example_store_core, of 7]
    getMessage_by_range [OF example_store_core, of 1]
    getMessage_by_range [OF example_store_core, of "- 2"]
    example_store_core
  by (simp add: core_length_def example_store_log)

text \<open>
  The claim as stated fails at \<open>seq = -1\<close>, which is outside \<open>[0, length)\<close>: the call
  throws instead of returning \<^verbatim>\<open>null\<close>.
\<close>

theorem getMessage_negative_seq_counterexample:
  "fst (getMessage example_store ''room-A'' (- 1)) = Inl BlockIndexInvalid
   \<and> \<not> (0 \<le> (- 1 :: int) \<and> (- 1 :: int) < int (core_length example_store (store_get (ByName ''room-A''))))"
  by (simp add: getMessage_def example_store_core core_get_def core_length_def example_store_log)

subsection \<open>C10: the cache of open cores\<close>

text \<open>
  C10. Once a core is registered for a chatId, \<^verbatim>\<open>getChatCore(chatId, key)\<close> returns that
  core and leaves the manager unchanged, whatever \<open>key\<close> is: the registry is looked up by
  chatId alone and the key is not read.
\<close>

theorem getChatCore_cache_ignores_key:
  assumes "cs_ready st" and "map_of (cores st) chatId = Some c"
  shows "getChatCore st chatId key = (Inr c, st)"
  using assms by (simp add: getChatCore_def)

text \<open>
  The theorem at the store whose cached core for room-A is the named one, asked with the
  key \<^verbatim>\<open>a1b2\<close>: the named core comes back.
\<close>

theorem getChatCore_cache_ignores_key_witness:
  "cs_ready example_store
   \<and> map_of (cores example_store) ''room-A'' = Some (store_get (ByName ''room-A''))
   \<and> getChatCore example_store ''room-A'' (Some ''a1b2'') =
       (Inr (store_get (ByName ''room-A'')), example_store)
   \<and> ident (store_get (ByName ''room-A'')) \<noteq> ByKey ''a1b2''"
proof -
  have h1: "cs_ready example_store" by (simp add: example_store_def)
  have h2: "map_of (cores example_store) ''room-A'' = Some (store_get (ByName ''room-A''))"
    by (simp add: example_store_def)
  show ?thesis
    using getChatCore_cache_ignores_key [OF h1 h2, of "Some ''a1b2''"] h1 h2
    by (simp add: store_get_def)
qed

end
